theory Spec2Isabelle
  imports Complex_Main
begin

section \<open>Values, errors and the outside world\<close>

text \<open>
  The service of \<^verbatim>\<open>main.py\<close> is glue between three HTTP providers and a hosted
  record store. The embedding keeps a handler as a function from the state of the
  world before the call to a result and the state after it. It covers the OAuth
  callback, the token refresh, the mail dispatch and the email webhook.

  Python strings are represented by their UTF-8 bytes (\<^typ>\<open>string\<close>), so that
  \<^verbatim>\<open>s.encode("utf-8")\<close> is the identity on the representation and f-string
  concatenation is list append. Output on stdout (\<^verbatim>\<open>print\<close>) is not part of the
  state. Transport failures of the HTTP client and of the store client are not
  modelled: every call to them returns. A response whose body is not JSON, or is JSON
  and not an object, is modelled.
\<close>

text \<open>The scalar JSON values a provider's response object can hold under a key.\<close>

datatype json = JNull | JBool bool | JInt int | JStr string

text \<open>
  What \<^verbatim>\<open>response.json()\<close> yields when the body of a response is JSON: an object, an
  array or a scalar. Values under a key and elements of an array are read as scalars.
\<close>

datatype json_doc = JObject "string \<rightharpoonup> json" | JArray "json list" | JScalar json

text \<open>The \<^verbatim>\<open>detail\<close> of an HTTPException: a message or a provider's parsed response.\<close>

datatype detail = DetailStr string | DetailJson json_doc

datatype py_error =
    HTTPException int detail
  | KeyError string
  | TypeError
  | ValueError
  | JSONDecodeError

subsection \<open>\<^verbatim>\<open>int(x)\<close>\<close>

definition is_py_space :: "char \<Rightarrow> bool" where
  "is_py_space c = ((of_char c :: nat) \<in> {9, 10, 11, 12, 13, 32})"

definition py_strip :: "string \<Rightarrow> string" where
  "py_strip s = rev (dropWhile is_py_space (rev (dropWhile is_py_space s)))"

definition digit_of :: "char \<Rightarrow> nat option" where
  "digit_of c =
     (let n = (of_char c :: nat) in if 48 \<le> n \<and> n \<le> 57 then Some (n - 48) else None)"

text \<open>
  Decimal digits, single underscores allowed between two digits. The flag says
  whether the previous character was a digit.
\<close>

fun parse_digits :: "nat \<Rightarrow> bool \<Rightarrow> string \<Rightarrow> nat option" where
  "parse_digits acc d [] = (if d then Some acc else None)"
| "parse_digits acc d (c # cs) =
     (if c = CHR ''_'' then (if d \<and> cs \<noteq> [] then parse_digits acc False cs else None)
      else (case digit_of c of
              None \<Rightarrow> None
            | Some k \<Rightarrow> parse_digits (10 * acc + k) True cs))"

definition int_of_str :: "string \<Rightarrow> int option" where
  "int_of_str s =
     (case py_strip s of
        [] \<Rightarrow> None
      | c # r \<Rightarrow>
          if c = CHR ''-'' then map_option (\<lambda>n. - int n) (parse_digits 0 False r)
          else if c = CHR ''+'' then map_option int (parse_digits 0 False r)
          else map_option int (parse_digits 0 False (c # r)))"

text \<open>
  \<^verbatim>\<open>int(v)\<close> for a JSON scalar: an integer is itself, a boolean is 0 or 1, a string
  is parsed as a decimal literal (ValueError otherwise), \<^verbatim>\<open>None\<close> is a TypeError.
  The literal is read in ASCII: surrounding white space, a sign, digits. The spaces
  and digits beyond ASCII that the interpreter also accepts, and its configurable cap
  on the number of digits of a string, are not modelled.
\<close>

fun py_int :: "json \<Rightarrow> py_error + int" where
  "py_int (JInt n) = Inr n"
| "py_int (JBool b) = Inr (if b then 1 else 0)"
| "py_int (JStr s) = (case int_of_str s of None \<Rightarrow> Inl ValueError | Some n \<Rightarrow> Inr n)"
| "py_int JNull = Inl TypeError"

text \<open>
  \<^verbatim>\<open>time.time()\<close> is a finite float, hence a rational number of seconds; it is read
  as a real. \<^verbatim>\<open>int(t)\<close> truncates toward zero, and Python compares an integer with
  a float exactly.
\<close>

definition int_of_time :: "real \<Rightarrow> int" where
  "int_of_time t = (if 0 \<le> t then \<lfloor>t\<rfloor> else \<lceil>t\<rceil>)"

subsection \<open>Configuration, HTTP and the record store\<close>

text \<open>The module-level values read with \<^verbatim>\<open>os.getenv\<close>; an unset variable is \<^verbatim>\<open>None\<close>.\<close>

record config =
  GOOGLE_CLIENT_ID :: "string option"
  GOOGLE_CLIENT_SECRET :: "string option"
  GOOGLE_REDIRECT_URI :: "string option"

definition env_json :: "string option \<Rightarrow> json" where
  "env_json v = (case v of None \<Rightarrow> JNull | Some s \<Rightarrow> JStr s)"

text \<open>
  A call of \<^verbatim>\<open>requests.post\<close>: form-encoded (\<^verbatim>\<open>data=\<close>) or JSON with headers
  (\<^verbatim>\<open>json=\<close>, \<^verbatim>\<open>headers=\<close>).
\<close>

datatype http_call =
    PostForm string "(string \<times> json) list"
  | PostJson string "(string \<times> string) list" "(string \<times> string) list"

text \<open>
  What the handlers read of a response: its status, and its body as JSON, which is
  \<open>None\<close> when the body is not JSON (an empty body, an HTML error page).
\<close>

record http_response =
  status_code :: int
  body_json :: "json_doc option"

text \<open>\<^verbatim>\<open>response.json()\<close> raises on a body that is not JSON.\<close>

definition response_json :: "http_response \<Rightarrow> py_error + json_doc" where
  "response_json response =
     (case body_json response of None \<Rightarrow> Inl JSONDecodeError | Some d \<Rightarrow> Inr d)"

text \<open>
  \<^verbatim>\<open>k in d\<close> for a string \<open>k\<close>: a key of an object, an element of an array, a
  substring of a string, and a TypeError on any other scalar.
\<close>

definition is_substring :: "string \<Rightarrow> string \<Rightarrow> bool" where
  "is_substring k s = list_ex (\<lambda>i. take (length k) (drop i s) = k) [0..<Suc (length s)]"

fun py_in :: "string \<Rightarrow> json_doc \<Rightarrow> py_error + bool" where
  "py_in k (JObject m) = Inr (m k \<noteq> None)"
| "py_in k (JArray xs) = Inr (JStr k \<in> set xs)"
| "py_in k (JScalar (JStr s)) = Inr (is_substring k s)"
| "py_in k (JScalar _) = Inl TypeError"

text \<open>
  \<^verbatim>\<open>d[k]\<close> for a string \<open>k\<close>: the value under the key of an object (KeyError when
  absent), and a TypeError on an array or a scalar.
\<close>

fun getitem :: "json_doc \<Rightarrow> string \<Rightarrow> py_error + json" where
  "getitem (JObject m) k = (case m k of None \<Rightarrow> Inl (KeyError k) | Some v \<Rightarrow> Inr v)"
| "getitem (JArray xs) k = Inl TypeError"
| "getitem (JScalar v) k = Inl TypeError"

text \<open>
  A row of the table \<^verbatim>\<open>gmail_tokens\<close>. The columns \<^verbatim>\<open>user_email\<close> to
  \<^verbatim>\<open>expires_at\<close> are the ones the handlers insert; \<^verbatim>\<open>created_at\<close> is assigned by
  the store at insertion.
\<close>

record token_row =
  user_email :: string
  access_token :: json
  refresh_token :: json
  token_type :: json
  scope :: json
  expires_at :: int
  created_at :: int

text \<open>A row of the table \<^verbatim>\<open>email_logs\<close>.\<close>

record log_row =
  inbox_id :: string
  sender :: string
  subject :: string
  body :: string
  ai_reply :: json
  confidence :: rat
  status :: string

text \<open>
  The state the handlers act on: the two tables, and the HTTP calls issued so far,
  oldest first.
\<close>

record world =
  gmail_tokens :: "token_row list"
  email_logs :: "log_row list"
  http_log :: "http_call list"

text \<open>
  A call of \<^verbatim>\<open>client.chat.completions.create\<close> and what comes of it inside the
  \<^verbatim>\<open>try\<close> block: an exception, or a completion, read as the list of its choices'
  \<^verbatim>\<open>message.content\<close> (a string or \<^verbatim>\<open>None\<close>).
\<close>

record chat_request =
  model :: string
  messages :: "(string \<times> string) list"
  temperature :: rat

datatype chat_outcome = Raised | Completion "json list"

text \<open>
  What the outside supplies during one handler call: the provider's answer to each
  HTTP call, the text generator's answer to a request, the clock reading at the
  validity check, the clock reading when a new expiry is computed, and the creation
  time the store gives to a row inserted during the call.
\<close>

record env =
  http_post :: "http_call \<Rightarrow> http_response"
  chat_create :: "chat_request \<Rightarrow> chat_outcome"
  time_at_check :: real
  time_at_issue :: real
  store_created_at :: int

text \<open>\<^verbatim>\<open>requests.post\<close>: the call is recorded and the provider's response returned.\<close>

definition requests_post :: "env \<Rightarrow> http_call \<Rightarrow> world \<Rightarrow> http_response \<times> world" where
  "requests_post e c w = (http_post e c, w\<lparr>http_log := http_log w @ [c]\<rparr>)"

text \<open>
  The query
  \<^verbatim>\<open>table("gmail_tokens").select("*").eq("user_email", u).order("created_at", desc=True).limit(1)\<close>,
  operator by operator. The store does not say in which order it yields rows of equal
  \<^verbatim>\<open>created_at\<close>; the model keeps them in table order.
\<close>

definition eq_user_email :: "string \<Rightarrow> token_row list \<Rightarrow> token_row list" where
  "eq_user_email u rows = filter (\<lambda>r. user_email r = u) rows"

definition order_created_at_desc :: "token_row list \<Rightarrow> token_row list" where
  "order_created_at_desc rows = sort_key (\<lambda>r. - created_at r) rows"

definition limit :: "nat \<Rightarrow> 'a list \<Rightarrow> 'a list" where
  "limit n rows = take n rows"

definition select_latest :: "string \<Rightarrow> world \<Rightarrow> token_row list" where
  "select_latest u w = limit 1 (order_created_at_desc (eq_user_email u (gmail_tokens w)))"

text \<open>
  \<^verbatim>\<open>table("gmail_tokens").insert({...}).execute()\<close>: the row is appended with the
  creation time the store assigns.
\<close>

definition insert_gmail_tokens ::
  "env \<Rightarrow> string \<Rightarrow> json \<Rightarrow> json \<Rightarrow> json \<Rightarrow> json \<Rightarrow> int \<Rightarrow> world \<Rightarrow> world" where
  "insert_gmail_tokens e u a r tt sc ex w =
     w\<lparr>gmail_tokens := gmail_tokens w @
         [\<lparr>user_email = u, access_token = a, refresh_token = r, token_type = tt,
           scope = sc, expires_at = ex, created_at = store_created_at e\<rparr>]\<rparr>"

definition insert_email_logs :: "log_row \<Rightarrow> world \<Rightarrow> world" where
  "insert_email_logs l w = w\<lparr>email_logs := email_logs w @ [l]\<rparr>"

section \<open>Token refreshing\<close>

definition token_url :: string where
  "token_url = ''https://oauth2.googleapis.com/token''"

definition refresh_call :: "config \<Rightarrow> token_row \<Rightarrow> http_call" where
  "refresh_call cfg record =
     PostForm token_url
       [(''client_id'', env_json (GOOGLE_CLIENT_ID cfg)),
        (''client_secret'', env_json (GOOGLE_CLIENT_SECRET cfg)),
        (''refresh_token'', refresh_token record),
        (''grant_type'', JStr ''refresh_token'')]"

text \<open>
  \<^verbatim>\<open>refresh_gmail_token(user_email)\<close>. The result is the access token, or the
  exception raised.
\<close>

definition refresh_gmail_token ::
  "config \<Rightarrow> env \<Rightarrow> string \<Rightarrow> world \<Rightarrow> (py_error + json) \<times> world" where
  "refresh_gmail_token cfg e u w =
     (case select_latest u w of
        [] \<Rightarrow> (Inl (HTTPException 404 (DetailStr ''User has no stored Gmail tokens'')), w)
      | record # _ \<Rightarrow>
          if real_of_int (expires_at record) > time_at_check e
          then (Inr (access_token record), w)
          else
            (case requests_post e (refresh_call cfg record) w of
               (response, w1) \<Rightarrow>
                 (case response_json response of
                    Inl err \<Rightarrow> (Inl err, w1)
                  | Inr new_tokens \<Rightarrow>
                 (case py_in ''access_token'' new_tokens of
                    Inl err \<Rightarrow> (Inl err, w1)
                  | Inr present \<Rightarrow>
                      if \<not> present
                      then (Inl (HTTPException 400 (DetailJson new_tokens)), w1)
                      else
                        (case getitem new_tokens ''access_token'' of
                           Inl err \<Rightarrow> (Inl err, w1)
                         | Inr new_access \<Rightarrow>
                        (case getitem new_tokens ''expires_in'' of
                           Inl err \<Rightarrow> (Inl err, w1)
                         | Inr expires_in \<Rightarrow>
                        (case py_int expires_in of
                           Inl err \<Rightarrow> (Inl err, w1)
                         | Inr n \<Rightarrow>
                             (Inr new_access,
                              insert_gmail_tokens e u new_access
                                (refresh_token record) (token_type record)
                                (scope record) (int_of_time (time_at_issue e) + n)
                                w1))))))))"

section \<open>OAuth callback\<close>

definition callback_call :: "config \<Rightarrow> string \<Rightarrow> http_call" where
  "callback_call cfg code =
     PostForm token_url
       [(''client_id'', env_json (GOOGLE_CLIENT_ID cfg)),
        (''client_secret'', env_json (GOOGLE_CLIENT_SECRET cfg)),
        (''code'', JStr code),
        (''grant_type'', JStr ''authorization_code''),
        (''redirect_uri'', env_json (GOOGLE_REDIRECT_URI cfg))]"

definition callback_user_email :: string where
  "callback_user_email = ''prod.tkmusic@gmail.com''"

text \<open>\<^verbatim>\<open>gmail_callback(code)\<close>. The result is the acknowledgement object.\<close>

definition gmail_callback ::
  "config \<Rightarrow> env \<Rightarrow> string \<Rightarrow> world \<Rightarrow> (py_error + (string \<times> json) list) \<times> world" where
  "gmail_callback cfg e code w =
     (case requests_post e (callback_call cfg code) w of
        (response, w1) \<Rightarrow>
          (case response_json response of
             Inl err \<Rightarrow> (Inl err, w1)
           | Inr tokens \<Rightarrow>
          (case py_in ''access_token'' tokens of
             Inl err \<Rightarrow> (Inl err, w1)
           | Inr present \<Rightarrow>
           if \<not> present
           then (Inl (HTTPException 400 (DetailJson tokens)), w1)
           else
             (case getitem tokens ''access_token'' of Inl err \<Rightarrow> (Inl err, w1)
              | Inr access_token' \<Rightarrow>
             (case getitem tokens ''refresh_token'' of Inl err \<Rightarrow> (Inl err, w1)
              | Inr refresh_token' \<Rightarrow>
             (case getitem tokens ''token_type'' of Inl err \<Rightarrow> (Inl err, w1)
              | Inr token_type' \<Rightarrow>
             (case getitem tokens ''scope'' of Inl err \<Rightarrow> (Inl err, w1)
              | Inr scope' \<Rightarrow>
             (case getitem tokens ''expires_in'' of Inl err \<Rightarrow> (Inl err, w1)
              | Inr expires_in \<Rightarrow>
             (case py_int expires_in of Inl err \<Rightarrow> (Inl err, w1)
              | Inr n \<Rightarrow>
                  (Inr [(''status'', JStr ''saved''), (''email'', JStr callback_user_email)],
                   insert_gmail_tokens e callback_user_email access_token' refresh_token'
                     token_type' scope' (int_of_time (time_at_issue e) + n) w1))))))))))"

section \<open>Sending mail\<close>

subsection \<open>\<^verbatim>\<open>base64.urlsafe_b64encode\<close>\<close>

definition b64_alphabet :: string where
  "b64_alphabet = ''ABCDEFGHIJKLMNOPQRSTUVWXYZabcdefghijklmnopqrstuvwxyz0123456789+/''"

definition b64_char :: "nat \<Rightarrow> char" where
  "b64_char n = b64_alphabet ! n"

text \<open>Three bytes give four characters; a last group of one or two bytes is padded.\<close>

fun b64encode :: "string \<Rightarrow> string" where
  "b64encode [] = []"
| "b64encode [a] =
     (let x = (of_char a :: nat)
      in [b64_char (x div 4), b64_char ((x mod 4) * 16), CHR ''='', CHR ''=''])"
| "b64encode [a, b] =
     (let x = (of_char a :: nat); y = (of_char b :: nat)
      in [b64_char (x div 4), b64_char ((x mod 4) * 16 + y div 16),
          b64_char ((y mod 16) * 4), CHR ''=''])"
| "b64encode (a # b # c # rest) =
     (let x = (of_char a :: nat); y = (of_char b :: nat); z = (of_char c :: nat)
      in [b64_char (x div 4), b64_char ((x mod 4) * 16 + y div 16),
          b64_char ((y mod 16) * 4 + z div 64), b64_char (z mod 64)]) @ b64encode rest"

text \<open>The translation of \<^verbatim>\<open>+\<close> to \<^verbatim>\<open>-\<close> and of \<^verbatim>\<open>/\<close> to \<^verbatim>\<open>_\<close>.\<close>

definition urlsafe_translate :: "char \<Rightarrow> char" where
  "urlsafe_translate c =
     (if c = CHR ''+'' then CHR ''-'' else if c = CHR ''/'' then CHR ''_'' else c)"

definition urlsafe_b64encode :: "string \<Rightarrow> string" where
  "urlsafe_b64encode s = map urlsafe_translate (b64encode s)"

subsection \<open>A reference decoder\<close>

text \<open>
  The inverse transport encoding, written from RFC 4648 section 5 and not from the
  service: four characters of the URL-safe alphabet give three bytes, and a final
  group padded with \<^verbatim>\<open>=\<close> gives one or two. It is what a receiver of the payload
  computes, and is used only to state what decoding the payload yields.
\<close>

definition urlsafe_alphabet :: string where
  "urlsafe_alphabet = ''ABCDEFGHIJKLMNOPQRSTUVWXYZabcdefghijklmnopqrstuvwxyz0123456789-_''"

fun index_of :: "'a \<Rightarrow> 'a list \<Rightarrow> nat option" where
  "index_of x [] = None"
| "index_of x (y # ys) = (if x = y then Some 0 else map_option Suc (index_of x ys))"

definition sextet :: "char \<Rightarrow> nat option" where
  "sextet c = index_of c urlsafe_alphabet"

definition byte1 :: "nat \<Rightarrow> nat \<Rightarrow> char" where
  "byte1 i j = char_of (i * 4 + j div 16)"

definition byte2 :: "nat \<Rightarrow> nat \<Rightarrow> char" where
  "byte2 j k = char_of ((j mod 16) * 16 + k div 4)"

definition byte3 :: "nat \<Rightarrow> nat \<Rightarrow> char" where
  "byte3 k l = char_of ((k mod 4) * 64 + l)"

fun rfc4648_urlsafe_decode :: "string \<Rightarrow> string option" where
  "rfc4648_urlsafe_decode [] = Some []"
| "rfc4648_urlsafe_decode (p # q # r # s # rest) =
     (if rest = [] \<and> s = CHR ''='' then
        (if r = CHR ''='' then
           (case (sextet p, sextet q) of
              (Some i, Some j) \<Rightarrow> Some [byte1 i j]
            | _ \<Rightarrow> None)
         else
           (case (sextet p, sextet q, sextet r) of
              (Some i, Some j, Some k) \<Rightarrow> Some [byte1 i j, byte2 j k]
            | _ \<Rightarrow> None))
      else
        (case (sextet p, sextet q, sextet r, sextet s) of
           (Some i, Some j, Some k, Some l) \<Rightarrow>
             map_option ((@) [byte1 i j, byte2 j k, byte3 k l]) (rfc4648_urlsafe_decode rest)
         | _ \<Rightarrow> None))"
| "rfc4648_urlsafe_decode _ = None"

subsection \<open>\<^verbatim>\<open>f"{v}"\<close>\<close>

definition digit_char :: "nat \<Rightarrow> char" where
  "digit_char d = char_of (48 + d)"

fun str_of_nat :: "nat \<Rightarrow> string" where
  "str_of_nat n = (if n < 10 then [digit_char n] else str_of_nat (n div 10) @ [digit_char (n mod 10)])"

declare str_of_nat.simps [simp del]

text \<open>The text an f-string puts for a JSON scalar.\<close>

fun py_str :: "json \<Rightarrow> string" where
  "py_str (JStr s) = s"
| "py_str (JInt n) = (if n < 0 then CHR ''-'' # str_of_nat (nat (- n)) else str_of_nat (nat n))"
| "py_str (JBool b) = (if b then ''True'' else ''False'')"
| "py_str JNull = ''None''"

subsection \<open>\<^verbatim>\<open>send_gmail_message\<close>\<close>

definition gmail_url :: string where
  "gmail_url = ''https://gmail.googleapis.com/gmail/v1/users/me/messages/send''"

definition CRLF :: string where
  "CRLF = [char_of (13 :: nat), char_of (10 :: nat)]"

definition raw_email :: "string \<Rightarrow> string \<Rightarrow> string \<Rightarrow> string" where
  "raw_email to_addr subj message_body =
     ''To: '' @ to_addr @ CRLF @ ''Subject: '' @ subj @ CRLF @ CRLF @ message_body"

definition send_call :: "json \<Rightarrow> string \<Rightarrow> string \<Rightarrow> string \<Rightarrow> http_call" where
  "send_call access_token' to_addr subj message_body =
     PostJson gmail_url
       [(''raw'', urlsafe_b64encode (raw_email to_addr subj message_body))]
       [(''Authorization'', ''Bearer '' @ py_str access_token'),
        (''Content-Type'', ''application/json'')]"

text \<open>
  \<^verbatim>\<open>send_gmail_message\<close>. The response is parsed first, for the \<^verbatim>\<open>print\<close> that
  precedes the test of the status; the later calls of \<^verbatim>\<open>response.json()\<close> yield the
  same value.
\<close>

definition send_gmail_message ::
  "config \<Rightarrow> env \<Rightarrow> string \<Rightarrow> string \<Rightarrow> string \<Rightarrow> string \<Rightarrow> world
     \<Rightarrow> (py_error + json_doc) \<times> world" where
  "send_gmail_message cfg e u to_addr subj message_body w =
     (case refresh_gmail_token cfg e u w of
        (Inl err, w1) \<Rightarrow> (Inl err, w1)
      | (Inr access_token', w1) \<Rightarrow>
          (case requests_post e (send_call access_token' to_addr subj message_body) w1 of
             (response, w2) \<Rightarrow>
               (case response_json response of
                  Inl err \<Rightarrow> (Inl err, w2)
                | Inr payload \<Rightarrow>
                    if status_code response \<noteq> 200
                    then (Inl (HTTPException 500 (DetailJson payload)), w2)
                    else (Inr payload, w2))))"

section \<open>Email webhook\<close>

record EmailPayload =
  payload_inbox_id :: string
  payload_sender :: string
  payload_subject :: string
  payload_body :: string

definition system_prompt :: string where
  "system_prompt =
     ''You are an assistant that writes clear, polite, professional email replies. '' @
     ''Keep replies concise, friendly, and helpful. '' @
     ''If you are missing key information, ask for clarification.''"

definition LF :: string where
  "LF = [char_of (10 :: nat)]"

definition user_prompt :: "EmailPayload \<Rightarrow> string" where
  "user_prompt payload =
     LF @ ''    Write a professional reply email.'' @ LF @
     LF @ ''    Incoming email:'' @ LF @
     ''    From: '' @ payload_sender payload @ LF @
     ''    Subject: '' @ payload_subject payload @ LF @
     ''    Body:'' @ LF @
     ''    '' @ payload_body payload @ LF @
     LF @ ''    Reply in a helpful, polite way.'' @ LF @
     ''    ''"

definition fallback_reply :: string where
  "fallback_reply = ''There was an error generating a reply.''"

text \<open>
  The \<^verbatim>\<open>try\<close> block of the webhook: \<^verbatim>\<open>completion.choices[0].message.content\<close>
  raises on an empty list of choices, and every exception is caught.
\<close>

definition completion_request :: "EmailPayload \<Rightarrow> chat_request" where
  "completion_request payload =
     \<lparr>model = ''gpt-4o-mini'',
      messages = [(''system'', system_prompt), (''user'', user_prompt payload)],
      temperature = 1 / 2\<rparr>"

definition draft_reply :: "env \<Rightarrow> EmailPayload \<Rightarrow> json \<times> string" where
  "draft_reply e payload =
     (case chat_create e (completion_request payload) of
        Raised \<Rightarrow> (JStr fallback_reply, ''draft'')
      | Completion choices \<Rightarrow>
          (case choices of
             [] \<Rightarrow> (JStr fallback_reply, ''draft'')
           | content # _ \<Rightarrow> (content, ''draft'')))"

definition process_email :: "env \<Rightarrow> EmailPayload \<Rightarrow> world \<Rightarrow> (string \<times> json) list \<times> world" where
  "process_email e payload w =
     (case draft_reply e payload of
        (ai_reply', status') \<Rightarrow>
          ([(''status'', JStr status'), (''reply'', ai_reply')],
           insert_email_logs
             \<lparr>inbox_id = payload_inbox_id payload,
              sender = payload_sender payload,
              subject = payload_subject payload,
              body = payload_body payload,
              ai_reply = ai_reply',
              confidence = 8 / 10,
              status = status'\<rparr> w))"

section \<open>Sample inputs\<close>

text \<open>Concrete configurations, rows, worlds and environments, used to run the handlers.\<close>

definition ex_cfg :: config where
  "ex_cfg = \<lparr>GOOGLE_CLIENT_ID = Some ''client-id'', GOOGLE_CLIENT_SECRET = Some ''secret'',
             GOOGLE_REDIRECT_URI = Some ''https://app.example/oauth/gmail/callback''\<rparr>"

definition ex_user :: string where
  "ex_user = ''u@example.com''"

text \<open>A row of \<open>ex_user\<close> that expires at second 999 and was created at time 10.\<close>

definition ex_row :: token_row where
  "ex_row = \<lparr>user_email = ex_user, access_token = JStr ''A1'', refresh_token = JStr ''R1'',
             token_type = JStr ''Bearer'', scope = JStr ''gmail.send'',
             expires_at = 999, created_at = 10\<rparr>"

definition ex_world :: world where
  "ex_world = \<lparr>gmail_tokens = [ex_row], email_logs = [], http_log = []\<rparr>"

text \<open>
  An environment whose providers answer every HTTP call with the given status and
  body and every generation request with the given outcome, whose clock reads the
  given time at both readings, and whose store stamps a new row with time 20.
\<close>

definition ex_env_body :: "int \<Rightarrow> json_doc option \<Rightarrow> chat_outcome \<Rightarrow> real \<Rightarrow> env" where
  "ex_env_body st b gen t =
     \<lparr>http_post = (\<lambda>_. \<lparr>status_code = st, body_json = b\<rparr>),
      chat_create = (\<lambda>_. gen),
      time_at_check = t, time_at_issue = t, store_created_at = 20\<rparr>"

text \<open>The same, with a JSON object as the body of every response.\<close>

definition ex_env :: "int \<Rightarrow> (string \<rightharpoonup> json) \<Rightarrow> chat_outcome \<Rightarrow> real \<Rightarrow> env" where
  "ex_env st obj gen t = ex_env_body st (Some (JObject obj)) gen t"

definition ex_payload :: EmailPayload where
  "ex_payload = \<lparr>payload_inbox_id = ''inbox-1'', payload_sender = ''a@b.org'',
                 payload_subject = ''Question'', payload_body = ''Hello?''\<rparr>"

text \<open>A successful refresh response of the provider.\<close>

definition ex_refresh_response :: "string \<rightharpoonup> json" where
  "ex_refresh_response = [''access_token'' \<mapsto> JStr ''A2'', ''expires_in'' \<mapsto> JInt 3600]"

text \<open>
  A second row of \<open>ex_user\<close>, created later than \<open>ex_row\<close> and expiring later, and a
  world that holds both, the later one first in the table.
\<close>

definition ex_row_newer :: token_row where
  "ex_row_newer = \<lparr>user_email = ex_user, access_token = JStr ''A0'', refresh_token = JStr ''R0'',
             token_type = JStr ''Bearer'', scope = JStr ''gmail.send'',
             expires_at = 5000, created_at = 15\<rparr>"

definition ex_world2 :: world where
  "ex_world2 = \<lparr>gmail_tokens = [ex_row_newer, ex_row], email_logs = [], http_log = []\<rparr>"

text \<open>A refresh response in which the provider also issues a new refresh token.\<close>

definition ex_rotating_response :: "string \<rightharpoonup> json" where
  "ex_rotating_response =
     [''access_token'' \<mapsto> JStr ''A2'', ''refresh_token'' \<mapsto> JStr ''R2'',
      ''expires_in'' \<mapsto> JInt 3600]"

text \<open>A refresh response without an access token.\<close>

definition ex_error_response :: "string \<rightharpoonup> json" where
  "ex_error_response = [''error'' \<mapsto> JStr ''invalid_grant'']"

text \<open>A code-exchange response with an access token and no refresh token.\<close>

definition ex_partial_response :: "string \<rightharpoonup> json" where
  "ex_partial_response = [''access_token'' \<mapsto> JStr ''A1'', ''expires_in'' \<mapsto> JInt 3600]"

text \<open>The object of a response of the mail provider.\<close>

definition ex_sent_response :: "string \<rightharpoonup> json" where
  "ex_sent_response = [''id'' \<mapsto> JStr ''m-1'']"

section \<open>The latest record of an identity\<close>

lemma select_latest_Nil_iff:
  "select_latest u w = [] \<longleftrightarrow> (\<forall>r \<in> set (gmail_tokens w). user_email r \<noteq> u)"
proof -
  let ?xs = "eq_user_email u (gmail_tokens w)"
  let ?ys = "sort_key (\<lambda>r. - created_at r) ?xs"
  have "select_latest u w = [] \<longleftrightarrow> ?ys = []"
    by (cases ?ys) (simp_all add: select_latest_def limit_def order_created_at_desc_def)
  also have "\<dots> \<longleftrightarrow> ?xs = []"
    using length_sort [of "\<lambda>r. - created_at r" ?xs] by (metis length_0_conv)
  also have "\<dots> \<longleftrightarrow> (\<forall>r \<in> set (gmail_tokens w). user_email r \<noteq> u)"
    by (simp add: eq_user_email_def filter_empty_conv)
  finally show ?thesis .
qed

lemma select_latest_Cons:
  assumes "select_latest u w = r # rs"
  shows "rs = []" and "r \<in> set (gmail_tokens w)" and "user_email r = u"
    and "\<forall>r' \<in> set (gmail_tokens w). user_email r' = u \<longrightarrow> created_at r' \<le> created_at r"
proof -
  let ?xs = "eq_user_email u (gmail_tokens w)"
  let ?ys = "sort_key (\<lambda>r. - created_at r) ?xs"
  from assms have t: "take 1 ?ys = r # rs"
    by (simp add: select_latest_def limit_def order_created_at_desc_def)
  then obtain zs where ys: "?ys = r # zs" and rs: "rs = []"
    by (cases ?ys) auto
  show "rs = []" by (rule rs)
  have "r \<in> set ?ys" using ys by simp
  then have mem: "r \<in> set ?xs" by simp
  then show "r \<in> set (gmail_tokens w)" and "user_email r = u"
    by (simp_all add: eq_user_email_def)
  have "sorted (map (\<lambda>r. - created_at r) ?ys)" by (rule sorted_sort_key)
  then have "\<forall>z \<in> set ?ys. - created_at r \<le> - created_at z"
    using ys by auto
  then have "\<forall>z \<in> set ?xs. created_at z \<le> created_at r" by simp
  then show "\<forall>r' \<in> set (gmail_tokens w). user_email r' = u \<longrightarrow> created_at r' \<le> created_at r"
    by (simp add: eq_user_email_def)
qed

text \<open>
  Claim C5. For a user identity with no stored credential record, the token lifecycle
  manager fails with the not-authorized error (HTTP status 404) and leaves the world
  as it was: no HTTP call is issued and no row is written.
\<close>

theorem refresh_without_record:
  assumes "\<forall>r \<in> set (gmail_tokens w). user_email r \<noteq> u"
  shows "refresh_gmail_token cfg e u w =
           (Inl (HTTPException 404 (DetailStr ''User has no stored Gmail tokens'')), w)"
proof -
  from assms have "select_latest u w = []" by (simp add: select_latest_Nil_iff)
  then show ?thesis by (simp add: refresh_gmail_token_def)
qed

theorem refresh_without_record_witness:
  "map user_email (gmail_tokens ex_world) = [''u@example.com''] \<and>
   refresh_gmail_token ex_cfg (ex_env 200 Map.empty Raised 1000) ''nobody@example.com'' ex_world =
     (Inl (HTTPException 404 (DetailStr ''User has no stored Gmail tokens'')), ex_world)"
proof -
  have h: "\<forall>r \<in> set (gmail_tokens ex_world). user_email r \<noteq> ''nobody@example.com''"
    by (simp add: ex_world_def ex_row_def ex_user_def)
  show ?thesis
    using refresh_without_record [OF h]
    by (simp add: ex_world_def ex_row_def ex_user_def)
qed

lemma select_latest_newest:
  assumes mem: "record \<in> set (gmail_tokens w)" and usr: "user_email record = u"
    and newest: "\<forall>r' \<in> set (gmail_tokens w).
                   user_email r' = u \<and> r' \<noteq> record \<longrightarrow> created_at r' < created_at record"
  shows "select_latest u w = [record]"
proof (cases "select_latest u w")
  case Nil
  with mem usr show ?thesis by (simp add: select_latest_Nil_iff)
next
  case (Cons r rs)
  note sel = select_latest_Cons [OF Cons]
  from sel(4) mem usr have "created_at record \<le> created_at r" by blast
  with newest sel(2,3) have "r = record" by force
  with Cons sel(1) show ?thesis by simp
qed

section \<open>The branches of the refresh\<close>

lemma refresh_still_valid:
  assumes "select_latest u w = record # rest"
    and "real_of_int (expires_at record) > time_at_check e"
  shows "refresh_gmail_token cfg e u w = (Inr (access_token record), w)"
  using assms by (simp add: refresh_gmail_token_def)

lemma refresh_expired:
  assumes "select_latest u w = record # rest"
    and "real_of_int (expires_at record) \<le> time_at_check e"
  shows "refresh_gmail_token cfg e u w =
    (let w1 = w\<lparr>http_log := http_log w @ [refresh_call cfg record]\<rparr>
     in case body_json (http_post e (refresh_call cfg record)) of
          None \<Rightarrow> (Inl JSONDecodeError, w1)
        | Some new_tokens \<Rightarrow>
            (case py_in ''access_token'' new_tokens of
               Inl err \<Rightarrow> (Inl err, w1)
             | Inr present \<Rightarrow>
                 if \<not> present
                 then (Inl (HTTPException 400 (DetailJson new_tokens)), w1)
                 else
                   (case getitem new_tokens ''access_token'' of
                      Inl err \<Rightarrow> (Inl err, w1)
                    | Inr new_access \<Rightarrow>
                        (case getitem new_tokens ''expires_in'' of
                           Inl err \<Rightarrow> (Inl err, w1)
                         | Inr expires_in \<Rightarrow>
                             (case py_int expires_in of
                                Inl err \<Rightarrow> (Inl err, w1)
                              | Inr n \<Rightarrow>
                                  (Inr new_access,
                                   insert_gmail_tokens e u new_access (refresh_token record)
                                     (token_type record) (scope record)
                                     (int_of_time (time_at_issue e) + n) w1))))))"
  using assms
  by (simp add: refresh_gmail_token_def requests_post_def response_json_def Let_def
      split: option.splits)

lemma refresh_expired_object:
  assumes "select_latest u w = record # rest"
    and "real_of_int (expires_at record) \<le> time_at_check e"
    and "body_json (http_post e (refresh_call cfg record)) = Some (JObject new_tokens)"
  shows "refresh_gmail_token cfg e u w =
    (let w1 = w\<lparr>http_log := http_log w @ [refresh_call cfg record]\<rparr>
     in case new_tokens ''access_token'' of
          None \<Rightarrow> (Inl (HTTPException 400 (DetailJson (JObject new_tokens))), w1)
        | Some new_access \<Rightarrow>
            (case new_tokens ''expires_in'' of
               None \<Rightarrow> (Inl (KeyError ''expires_in''), w1)
             | Some expires_in \<Rightarrow>
                 (case py_int expires_in of
                    Inl err \<Rightarrow> (Inl err, w1)
                  | Inr n \<Rightarrow>
                      (Inr new_access,
                       insert_gmail_tokens e u new_access (refresh_token record)
                         (token_type record) (scope record)
                         (int_of_time (time_at_issue e) + n) w1))))"
  by (simp add: refresh_expired [OF assms(1,2)] assms(3) Let_def split: option.splits sum.splits)

text \<open>
  What every run of the expired branch does: the refresh call is issued, and a token is
  returned only from a response object that holds it.
\<close>

lemma refresh_expired_effects:
  assumes "select_latest u w = record # rest"
    and "real_of_int (expires_at record) \<le> time_at_check e"
  shows "http_log (snd (refresh_gmail_token cfg e u w)) = http_log w @ [refresh_call cfg record]"
    and "\<forall>tok. fst (refresh_gmail_token cfg e u w) = Inr tok \<longrightarrow>
           (\<exists>obj. body_json (http_post e (refresh_call cfg record)) = Some (JObject obj) \<and>
                  obj ''access_token'' = Some tok)"
proof -
  let ?R = "refresh_gmail_token cfg e u w"
  let ?goal = "http_log (snd ?R) = http_log w @ [refresh_call cfg record] \<and>
    (\<forall>tok. fst ?R = Inr tok \<longrightarrow>
       (\<exists>obj. body_json (http_post e (refresh_call cfg record)) = Some (JObject obj) \<and>
              obj ''access_token'' = Some tok))"
  have ?goal
  proof (cases "body_json (http_post e (refresh_call cfg record))")
    case None
    then show ?thesis by (simp add: refresh_expired [OF assms] Let_def)
  next
    case (Some doc)
    show ?thesis
    proof (cases doc)
      case (JObject obj)
      with Some show ?thesis
        by (simp add: refresh_expired_object [OF assms] Let_def insert_gmail_tokens_def
            split: option.splits sum.splits)
    next
      case (JArray xs)
      with Some show ?thesis by (simp add: refresh_expired [OF assms] Let_def)
    next
      case (JScalar v)
      with Some show ?thesis by (cases v) (simp_all add: refresh_expired [OF assms] Let_def)
    qed
  qed
  then show "http_log (snd ?R) = http_log w @ [refresh_call cfg record]"
    and "\<forall>tok. fst ?R = Inr tok \<longrightarrow>
           (\<exists>obj. body_json (http_post e (refresh_call cfg record)) = Some (JObject obj) \<and>
                  obj ''access_token'' = Some tok)"
    by simp_all
qed

text \<open>A failure of the manager, whatever it is, leaves both tables as they were.\<close>

lemma refresh_failure_writes_nothing:
  assumes "fst (refresh_gmail_token cfg e u w) = Inl err"
  shows "gmail_tokens (snd (refresh_gmail_token cfg e u w)) = gmail_tokens w"
    and "email_logs (snd (refresh_gmail_token cfg e u w)) = email_logs w"
  using assms
  by (auto simp add: refresh_gmail_token_def requests_post_def response_json_def
      split: list.splits if_splits sum.splits option.splits)

section \<open>Validity and expiry\<close>


lemma select_latest_ex_world: "select_latest ex_user ex_world = [ex_row]"
  by (simp add: select_latest_def limit_def order_created_at_desc_def eq_user_email_def
      ex_world_def ex_row_def)


text \<open>
  Claim C6. For an identity with at least one stored record, the query yields exactly
  one record; it is a stored record of that identity whose \<^verbatim>\<open>created_at\<close> is
  maximal among the records of the identity, and the validity decision, the returned
  access token and the refresh call are those of that record.
\<close>

theorem refresh_uses_latest_record:
  assumes "\<exists>r \<in> set (gmail_tokens w). user_email r = u"
  shows "\<exists>record.
           select_latest u w = [record] \<and>
           record \<in> set (gmail_tokens w) \<and> user_email record = u \<and>
           (\<forall>r' \<in> set (gmail_tokens w).
              user_email r' = u \<longrightarrow> created_at r' \<le> created_at record) \<and>
           (if real_of_int (expires_at record) > time_at_check e
            then refresh_gmail_token cfg e u w = (Inr (access_token record), w)
            else http_log (snd (refresh_gmail_token cfg e u w)) =
                   http_log w @ [refresh_call cfg record] \<and>
                 (\<forall>tok. fst (refresh_gmail_token cfg e u w) = Inr tok \<longrightarrow>
                    (\<exists>obj. body_json (http_post e (refresh_call cfg record)) = Some (JObject obj) \<and>
                           obj ''access_token'' = Some tok)))"
proof -
  from assms have "select_latest u w \<noteq> []" by (simp add: select_latest_Nil_iff)
  then obtain latest rest where sel: "select_latest u w = latest # rest"
    by (cases "select_latest u w") auto
  note props = select_latest_Cons [OF sel]
  have dec:
    "if real_of_int (expires_at latest) > time_at_check e
     then refresh_gmail_token cfg e u w = (Inr (access_token latest), w)
     else http_log (snd (refresh_gmail_token cfg e u w)) =
            http_log w @ [refresh_call cfg latest] \<and>
          (\<forall>tok. fst (refresh_gmail_token cfg e u w) = Inr tok \<longrightarrow>
             (\<exists>obj. body_json (http_post e (refresh_call cfg latest)) = Some (JObject obj) \<and>
                    obj ''access_token'' = Some tok))"
  proof (cases "real_of_int (expires_at latest) > time_at_check e")
    case True
    then show ?thesis using refresh_still_valid [OF sel] by simp
  next
    case False
    then have ex: "real_of_int (expires_at latest) \<le> time_at_check e" by simp
    have "http_log (snd (refresh_gmail_token cfg e u w)) = http_log w @ [refresh_call cfg latest]"
      by (rule refresh_expired_effects(1) [OF sel ex])
    moreover have "\<forall>tok. fst (refresh_gmail_token cfg e u w) = Inr tok \<longrightarrow>
          (\<exists>obj. body_json (http_post e (refresh_call cfg latest)) = Some (JObject obj) \<and>
                 obj ''access_token'' = Some tok)"
      by (rule refresh_expired_effects(2) [OF sel ex])
    ultimately show ?thesis using False by simp
  qed
  from sel props(1) have "select_latest u w = [latest]" by simp
  with props(2,3,4) dec show ?thesis by blast
qed

lemma select_latest_ex_world2: "select_latest ex_user ex_world2 = [ex_row_newer]"
  by (simp add: select_latest_def limit_def order_created_at_desc_def eq_user_email_def
      ex_world2_def ex_row_def ex_row_newer_def)

theorem refresh_uses_latest_record_witness:
  "map created_at (gmail_tokens ex_world2) = [15, 10] \<and>
   map expires_at (gmail_tokens ex_world2) = [5000, 999] \<and>
   refresh_gmail_token ex_cfg (ex_env 200 ex_refresh_response Raised 1000) ex_user ex_world2 =
     (Inr (JStr ''A0''), ex_world2)"
proof -
  have h: "\<exists>r \<in> set (gmail_tokens ex_world2). user_email r = ex_user"
    by (simp add: ex_world2_def ex_row_def)
  from refresh_uses_latest_record [OF h, of "ex_env 200 ex_refresh_response Raised 1000" ex_cfg]
  obtain latest where sel: "select_latest ex_user ex_world2 = [latest]"
    and dec: "if real_of_int (expires_at latest) >
                 time_at_check (ex_env 200 ex_refresh_response Raised 1000)
            then refresh_gmail_token ex_cfg (ex_env 200 ex_refresh_response Raised 1000)
                   ex_user ex_world2 = (Inr (access_token latest), ex_world2)
            else http_log (snd (refresh_gmail_token ex_cfg (ex_env 200 ex_refresh_response Raised 1000) ex_user ex_world2)) =
                   http_log ex_world2 @ [refresh_call ex_cfg latest] \<and>
                 (\<forall>tok. fst (refresh_gmail_token ex_cfg (ex_env 200 ex_refresh_response Raised 1000) ex_user ex_world2) = Inr tok \<longrightarrow>
                    (\<exists>obj. body_json (http_post (ex_env 200 ex_refresh_response Raised 1000) (refresh_call ex_cfg latest)) = Some (JObject obj) \<and>
                           obj ''access_token'' = Some tok))"
    by blast
  from sel have r: "latest = ex_row_newer" by (simp add: select_latest_ex_world2)
  from dec show ?thesis
    unfolding r by (simp add: ex_row_newer_def ex_env_def ex_env_body_def ex_world2_def ex_row_def)
qed

section \<open>A successful refresh\<close>

text \<open>The refresh of \<open>ex_world\<close> at time 1000, for any response that can be used.\<close>

lemma refresh_ex_world:
  assumes "obj ''access_token'' = Some a" and "obj ''expires_in'' = Some (JInt n)"
  shows "refresh_gmail_token ex_cfg (ex_env st obj gen 1000) ex_user ex_world =
     (Inr a,
      \<lparr>gmail_tokens =
         [ex_row,
          \<lparr>user_email = ex_user, access_token = a, refresh_token = JStr ''R1'',
           token_type = JStr ''Bearer'', scope = JStr ''gmail.send'',
           expires_at = 1000 + n, created_at = 20\<rparr>],
       email_logs = [], http_log = [refresh_call ex_cfg ex_row]\<rparr>)"
proof -
  have ex: "real_of_int (expires_at ex_row) \<le> time_at_check (ex_env st obj gen 1000)"
    by (simp add: ex_row_def ex_env_def ex_env_body_def)
  have body: "body_json (http_post (ex_env st obj gen 1000) (refresh_call ex_cfg ex_row)) =
                Some (JObject obj)"
    by (simp add: ex_env_def ex_env_body_def)
  show ?thesis
    by (subst refresh_expired_object [OF select_latest_ex_world ex body])
       (simp add: assms Let_def insert_gmail_tokens_def int_of_time_def ex_env_def ex_env_body_def ex_row_def
          ex_world_def)
qed

text \<open>
  Claim C1 says that a refresh token newly issued by the provider replaces the stored
  one in the new record. Here the provider answers with access token A2 and a new
  refresh token R2; the record written carries R1, the refresh token of the old record.
\<close>

theorem refresh_ignores_rotated_token:
  "body_json (http_post (ex_env 200 ex_rotating_response Raised 1000) (refresh_call ex_cfg ex_row))
     = Some (JObject ex_rotating_response) \<and>
   ex_rotating_response ''refresh_token'' = Some (JStr ''R2'') \<and>
   fst (refresh_gmail_token ex_cfg (ex_env 200 ex_rotating_response Raised 1000) ex_user ex_world)
     = Inr (JStr ''A2'') \<and>
   map refresh_token
     (gmail_tokens (snd (refresh_gmail_token ex_cfg (ex_env 200 ex_rotating_response Raised 1000)
                           ex_user ex_world)))
     = [JStr ''R1'', JStr ''R1'']"
proof -
  have "refresh_gmail_token ex_cfg (ex_env 200 ex_rotating_response Raised 1000) ex_user ex_world =
     (Inr (JStr ''A2''),
      \<lparr>gmail_tokens =
         [ex_row,
          \<lparr>user_email = ex_user, access_token = JStr ''A2'', refresh_token = JStr ''R1'',
           token_type = JStr ''Bearer'', scope = JStr ''gmail.send'',
           expires_at = 1000 + 3600, created_at = 20\<rparr>],
       email_logs = [], http_log = [refresh_call ex_cfg ex_row]\<rparr>)"
    by (rule refresh_ex_world) (simp_all add: ex_rotating_response_def)
  then show ?thesis
    by (simp add: ex_env_def ex_env_body_def ex_rotating_response_def ex_row_def)
qed

text \<open>
  Claim C1, amended. When the latest record of an identity is expired and the provider's
  response is an object with an access token and an \<^verbatim>\<open>expires_in\<close> that \<^verbatim>\<open>int\<close> converts to \<open>n\<close>,
  the manager returns the new access token, and the world changes by the refresh call
  and by one appended row: the identity, the new access token, the refresh token, token
  type and scope of the old record (whatever refresh token the response holds), and
  \<^verbatim>\<open>expires_at\<close> equal to the truncated clock reading plus \<open>n\<close>.
\<close>

theorem refresh_success_carries_forward:
  assumes "select_latest u w = record # rest"
    and "real_of_int (expires_at record) \<le> time_at_check e"
    and "body_json (http_post e (refresh_call cfg record)) = Some (JObject new_tokens)"
    and "new_tokens ''access_token'' = Some new_access"
    and "new_tokens ''expires_in'' = Some expires_in"
    and "py_int expires_in = Inr n"
  shows "refresh_gmail_token cfg e u w =
     (Inr new_access,
      w\<lparr>http_log := http_log w @ [refresh_call cfg record],
        gmail_tokens := gmail_tokens w @
          [\<lparr>user_email = u, access_token = new_access,
            refresh_token = refresh_token record, token_type = token_type record,
            scope = scope record,
            expires_at = int_of_time (time_at_issue e) + n,
            created_at = store_created_at e\<rparr>]\<rparr>)"
  using assms(4-6)
  by (simp add: refresh_expired_object [OF assms(1-3)] Let_def insert_gmail_tokens_def)

theorem refresh_success_carries_forward_witness:
  "refresh_gmail_token ex_cfg (ex_env 200 ex_rotating_response Raised 1000) ex_user ex_world =
     (Inr (JStr ''A2''),
      \<lparr>gmail_tokens =
         [ex_row,
          \<lparr>user_email = ex_user, access_token = JStr ''A2'', refresh_token = JStr ''R1'',
           token_type = JStr ''Bearer'', scope = JStr ''gmail.send'',
           expires_at = 4600, created_at = 20\<rparr>],
       email_logs = [], http_log = [refresh_call ex_cfg ex_row]\<rparr>)"
proof -
  let ?e = "ex_env 200 ex_rotating_response Raised 1000"
  have ex: "real_of_int (expires_at ex_row) \<le> time_at_check ?e"
    by (simp add: ex_row_def ex_env_def ex_env_body_def)
  have body: "body_json (http_post ?e (refresh_call ex_cfg ex_row)) =
                Some (JObject ex_rotating_response)"
    by (simp add: ex_env_def ex_env_body_def)
  have a: "ex_rotating_response ''access_token'' = Some (JStr ''A2'')"
    and b: "ex_rotating_response ''expires_in'' = Some (JInt 3600)"
    by (simp_all add: ex_rotating_response_def)
  have c: "py_int (JInt 3600) = Inr 3600" by simp
  show ?thesis
    using refresh_success_carries_forward [OF select_latest_ex_world ex body a b c]
    by (simp add: int_of_time_def ex_env_def ex_env_body_def ex_row_def ex_world_def)
qed

section \<open>A failed refresh\<close>

text \<open>
  Claim C4 says that a refresh response with an error status makes the manager fail and
  write nothing. Here the response has status 401 and holds an access token: the manager
  returns that token and writes a row.
\<close>

theorem refresh_accepts_error_status:
  "status_code (http_post (ex_env 401 ex_refresh_response Raised 1000) (refresh_call ex_cfg ex_row))
     = 401 \<and>
   refresh_gmail_token ex_cfg (ex_env 401 ex_refresh_response Raised 1000) ex_user ex_world =
     (Inr (JStr ''A2''),
      \<lparr>gmail_tokens =
         [ex_row,
          \<lparr>user_email = ex_user, access_token = JStr ''A2'', refresh_token = JStr ''R1'',
           token_type = JStr ''Bearer'', scope = JStr ''gmail.send'',
           expires_at = 4600, created_at = 20\<rparr>],
       email_logs = [], http_log = [refresh_call ex_cfg ex_row]\<rparr>)"
proof -
  have "refresh_gmail_token ex_cfg (ex_env 401 ex_refresh_response Raised 1000) ex_user ex_world =
     (Inr (JStr ''A2''),
      \<lparr>gmail_tokens =
         [ex_row,
          \<lparr>user_email = ex_user, access_token = JStr ''A2'', refresh_token = JStr ''R1'',
           token_type = JStr ''Bearer'', scope = JStr ''gmail.send'',
           expires_at = 1000 + 3600, created_at = 20\<rparr>],
       email_logs = [], http_log = [refresh_call ex_cfg ex_row]\<rparr>)"
    by (rule refresh_ex_world) (simp_all add: ex_refresh_response_def)
  then show ?thesis by (simp add: ex_env_def ex_env_body_def)
qed

text \<open>
  Claim C4, amended. Let the latest record of an identity be expired. If the body of the
  provider's refresh response is JSON and the parsed value holds no access token (the
  test \<^verbatim>\<open>"access_token" not in new_tokens\<close> succeeds), whatever the status of the
  response, the manager fails with the upstream error (HTTP status 400) carrying the
  parsed payload, and the world changes by the refresh call only. On every failure of the
  manager, this one or the error raised on a body that is not JSON or not a container,
  no record is written: both tables are as before.
\<close>

theorem refresh_failure_leaves_store:
  assumes "select_latest u w = record # rest"
    and "real_of_int (expires_at record) \<le> time_at_check e"
  shows "(\<forall>new_tokens.
            body_json (http_post e (refresh_call cfg record)) = Some new_tokens \<and>
            py_in ''access_token'' new_tokens = Inr False \<longrightarrow>
            refresh_gmail_token cfg e u w =
              (Inl (HTTPException 400 (DetailJson new_tokens)),
               w\<lparr>http_log := http_log w @ [refresh_call cfg record]\<rparr>)) \<and>
         (\<forall>err. fst (refresh_gmail_token cfg e u w) = Inl err \<longrightarrow>
            gmail_tokens (snd (refresh_gmail_token cfg e u w)) = gmail_tokens w \<and>
            email_logs (snd (refresh_gmail_token cfg e u w)) = email_logs w)"
proof (intro conjI allI impI)
  fix new_tokens
  assume "body_json (http_post e (refresh_call cfg record)) = Some new_tokens \<and>
          py_in ''access_token'' new_tokens = Inr False"
  then show "refresh_gmail_token cfg e u w =
              (Inl (HTTPException 400 (DetailJson new_tokens)),
               w\<lparr>http_log := http_log w @ [refresh_call cfg record]\<rparr>)"
    by (simp add: refresh_expired [OF assms] Let_def)
next
  fix err
  assume "fst (refresh_gmail_token cfg e u w) = Inl err"
  then show "gmail_tokens (snd (refresh_gmail_token cfg e u w)) = gmail_tokens w"
    and "email_logs (snd (refresh_gmail_token cfg e u w)) = email_logs w"
    by (rule refresh_failure_writes_nothing)+
qed

lemma refresh_ex_world_not_json:
  "refresh_gmail_token ex_cfg (ex_env_body 502 None Raised 1000) ex_user ex_world =
     (Inl JSONDecodeError,
      \<lparr>gmail_tokens = [ex_row], email_logs = [], http_log = [refresh_call ex_cfg ex_row]\<rparr>)"
proof -
  have ex: "real_of_int (expires_at ex_row) \<le> time_at_check (ex_env_body 502 None Raised 1000)"
    by (simp add: ex_row_def ex_env_body_def)
  show ?thesis
    by (subst refresh_expired [OF select_latest_ex_world ex])
       (simp add: Let_def ex_env_body_def ex_world_def)
qed

theorem refresh_failure_leaves_store_witness:
  "status_code (http_post (ex_env 400 ex_error_response Raised 1000) (refresh_call ex_cfg ex_row))
     = 400 \<and>
   refresh_gmail_token ex_cfg (ex_env 400 ex_error_response Raised 1000) ex_user ex_world =
     (Inl (HTTPException 400 (DetailJson (JObject ex_error_response))),
      \<lparr>gmail_tokens = [ex_row], email_logs = [], http_log = [refresh_call ex_cfg ex_row]\<rparr>) \<and>
   fst (refresh_gmail_token ex_cfg (ex_env_body 502 None Raised 1000) ex_user ex_world) =
     Inl JSONDecodeError \<and>
   gmail_tokens (snd (refresh_gmail_token ex_cfg (ex_env_body 502 None Raised 1000)
                        ex_user ex_world)) = [ex_row]"
proof -
  let ?e = "ex_env 400 ex_error_response Raised 1000"
  let ?h = "ex_env_body 502 None Raised 1000"
  have ex: "real_of_int (expires_at ex_row) \<le> time_at_check ?e"
    by (simp add: ex_row_def ex_env_def ex_env_body_def)
  have body: "body_json (http_post ?e (refresh_call ex_cfg ex_row)) =
                Some (JObject ex_error_response)"
    by (simp add: ex_env_def ex_env_body_def)
  have a: "py_in ''access_token'' (JObject ex_error_response) = Inr False"
    by (simp add: ex_error_response_def)
  from refresh_failure_leaves_store [OF select_latest_ex_world ex, of ex_cfg] body a
  have run: "refresh_gmail_token ex_cfg ?e ex_user ex_world =
     (Inl (HTTPException 400 (DetailJson (JObject ex_error_response))),
      ex_world\<lparr>http_log := http_log ex_world @ [refresh_call ex_cfg ex_row]\<rparr>)"
    by blast
  have exh: "real_of_int (expires_at ex_row) \<le> time_at_check ?h"
    by (simp add: ex_row_def ex_env_body_def)
  have failed: "fst (refresh_gmail_token ex_cfg ?h ex_user ex_world) = Inl JSONDecodeError"
    by (simp add: refresh_ex_world_not_json)
  from refresh_failure_leaves_store [OF select_latest_ex_world exh, of ex_cfg] failed
  have kept: "gmail_tokens (snd (refresh_gmail_token ex_cfg ?h ex_user ex_world)) =
                gmail_tokens ex_world"
    by blast
  have st: "status_code (http_post ?e (refresh_call ex_cfg ex_row)) = 400"
    by (simp add: ex_env_def ex_env_body_def)
  from run failed kept st show ?thesis by (simp add: ex_world_def)
qed

section \<open>The end-to-end refresh scenario\<close>

text \<open>
  Claim C2. The store holds one record \<open>old\<close> for the identity, with refresh token R1
  and \<^verbatim>\<open>expires_at\<close> one second before the clock reading, and the provider answers the
  refresh call with the object of access token A2 and \<^verbatim>\<open>expires_in\<close> 3600. Then the
  manager returns A2, and afterwards the store holds exactly two records for the
  identity, \<open>old\<close> and a new one with access token A2, refresh token R1 and
  \<^verbatim>\<open>expires_at\<close> equal to the truncated clock reading at the refresh plus 3600; the
  new record is the latest one whenever the store stamps it later than \<open>old\<close>.
\<close>

theorem refresh_end_to_end_scenario:
  assumes store: "eq_user_email u (gmail_tokens w) = [old]"
    and rt: "refresh_token old = JStr ''R1''"
    and past: "real_of_int (expires_at old) = time_at_check e - 1"
    and resp: "body_json (http_post e (refresh_call cfg old)) =
                 Some (JObject [''access_token'' \<mapsto> JStr ''A2'', ''expires_in'' \<mapsto> JInt 3600])"
  shows "\<exists>new w'.
           refresh_gmail_token cfg e u w = (Inr (JStr ''A2''), w') \<and>
           gmail_tokens w' = gmail_tokens w @ [new] \<and>
           eq_user_email u (gmail_tokens w') = [old, new] \<and>
           access_token new = JStr ''A2'' \<and>
           refresh_token new = JStr ''R1'' \<and>
           expires_at new = int_of_time (time_at_issue e) + 3600 \<and>
           created_at new = store_created_at e \<and>
           (created_at old < store_created_at e \<longrightarrow> select_latest u w' = [new])"
proof -
  let ?new = "\<lparr>user_email = u, access_token = JStr ''A2'',
            refresh_token = refresh_token old, token_type = token_type old,
            scope = scope old,
            expires_at = int_of_time (time_at_issue e) + 3600,
            created_at = store_created_at e\<rparr>"
  let ?w' = "w\<lparr>http_log := http_log w @ [refresh_call cfg old],
        gmail_tokens := gmail_tokens w @ [?new]\<rparr>"
  have sel: "select_latest u w = old # []"
    by (simp add: select_latest_def limit_def order_created_at_desc_def store)
  have ex: "real_of_int (expires_at old) \<le> time_at_check e" using past by simp
  have c: "py_int (JInt 3600) = Inr 3600" by simp
  have run: "refresh_gmail_token cfg e u w = (Inr (JStr ''A2''), ?w')"
    by (subst refresh_expired_object [OF sel ex resp]) (simp add: Let_def insert_gmail_tokens_def)
  have two: "eq_user_email u (gmail_tokens ?w') = [old, ?new]"
    using store by (simp add: eq_user_email_def)
  have latest: "select_latest u ?w' = [?new]" if "created_at old < store_created_at e"
    using that two
    by (simp add: select_latest_def limit_def order_created_at_desc_def)
  from run two latest rt show ?thesis by (intro exI [of _ ?new] exI [of _ ?w']) simp
qed

theorem refresh_end_to_end_scenario_witness:
  "eq_user_email ex_user (gmail_tokens ex_world) = [ex_row] \<and>
   refresh_gmail_token ex_cfg (ex_env 200 ex_refresh_response Raised 1000) ex_user ex_world =
     (Inr (JStr ''A2''),
      \<lparr>gmail_tokens =
         [ex_row,
          \<lparr>user_email = ex_user, access_token = JStr ''A2'', refresh_token = JStr ''R1'',
           token_type = JStr ''Bearer'', scope = JStr ''gmail.send'',
           expires_at = 4600, created_at = 20\<rparr>],
       email_logs = [], http_log = [refresh_call ex_cfg ex_row]\<rparr>)"
proof -
  let ?e = "ex_env 200 ex_refresh_response Raised 1000"
  have store: "eq_user_email ex_user (gmail_tokens ex_world) = [ex_row]"
    by (simp add: eq_user_email_def ex_world_def ex_row_def)
  have rt: "refresh_token ex_row = JStr ''R1''" by (simp add: ex_row_def)
  have past: "real_of_int (expires_at ex_row) = time_at_check ?e - 1"
    by (simp add: ex_row_def ex_env_def ex_env_body_def)
  have resp: "body_json (http_post ?e (refresh_call ex_cfg ex_row)) =
                 Some (JObject [''access_token'' \<mapsto> JStr ''A2'', ''expires_in'' \<mapsto> JInt 3600])"
    by (simp add: ex_env_def ex_env_body_def ex_refresh_response_def)
  from refresh_end_to_end_scenario [OF store rt past resp]
  obtain new w' where run: "refresh_gmail_token ex_cfg ?e ex_user ex_world = (Inr (JStr ''A2''), w')"
    and rows: "gmail_tokens w' = gmail_tokens ex_world @ [new]"
    by blast
  have full: "refresh_gmail_token ex_cfg ?e ex_user ex_world =
     (Inr (JStr ''A2''),
      \<lparr>gmail_tokens =
         [ex_row,
          \<lparr>user_email = ex_user, access_token = JStr ''A2'', refresh_token = JStr ''R1'',
           token_type = JStr ''Bearer'', scope = JStr ''gmail.send'',
           expires_at = 1000 + 3600, created_at = 20\<rparr>],
       email_logs = [], http_log = [refresh_call ex_cfg ex_row]\<rparr>)"
    by (rule refresh_ex_world) (simp_all add: ex_refresh_response_def)
  with run store show ?thesis by simp
qed

section \<open>The guard of the OAuth callback\<close>

text \<open>
  Claim C10. The callback tests only that the provider's response holds
  \<^verbatim>\<open>access_token\<close>. For every response object that holds it and omits one of
  \<^verbatim>\<open>refresh_token\<close>, \<^verbatim>\<open>token_type\<close>, \<^verbatim>\<open>scope\<close> and \<^verbatim>\<open>expires_in\<close>, the callback
  raises a KeyError for an omitted key, not the HTTPException of the upstream error;
  nothing is written, the world changes by the code-exchange call only. Such responses
  exist.
\<close>

theorem callback_missing_field_raises_KeyError:
  assumes body: "body_json (http_post e (callback_call cfg code)) = Some (JObject tokens)"
    and acc: "tokens ''access_token'' \<noteq> None"
    and key: "k \<in> {''refresh_token'', ''token_type'', ''scope'', ''expires_in''}"
    and missing: "tokens k = None"
  shows "\<exists>k'. gmail_callback cfg e code w =
                 (Inl (KeyError k'), w\<lparr>http_log := http_log w @ [callback_call cfg code]\<rparr>) \<and>
              k' \<in> {''refresh_token'', ''token_type'', ''scope'', ''expires_in''} \<and>
              tokens k' = None"
proof -
  let ?w1 = "w\<lparr>http_log := http_log w @ [callback_call cfg code]\<rparr>"
  from acc obtain a where a: "tokens ''access_token'' = Some a" by auto
  note unfold = gmail_callback_def requests_post_def response_json_def body
  show ?thesis
  proof (cases "tokens ''refresh_token''")
    case None
    with a have "gmail_callback cfg e code w = (Inl (KeyError ''refresh_token''), ?w1)"
      by (simp add: unfold)
    with None show ?thesis by blast
  next
    case r: (Some r)
    show ?thesis
    proof (cases "tokens ''token_type''")
      case None
      with a r have "gmail_callback cfg e code w = (Inl (KeyError ''token_type''), ?w1)"
        by (simp add: unfold)
      with None show ?thesis by blast
    next
      case t: (Some t)
      show ?thesis
      proof (cases "tokens ''scope''")
        case None
        with a r t have "gmail_callback cfg e code w = (Inl (KeyError ''scope''), ?w1)"
          by (simp add: unfold)
        with None show ?thesis by blast
      next
        case s: (Some s)
        from key missing r t s have x: "tokens ''expires_in'' = None" by auto
        with a r t s have "gmail_callback cfg e code w = (Inl (KeyError ''expires_in''), ?w1)"
          by (simp add: unfold)
        with x show ?thesis by blast
      qed
    qed
  qed
qed

lemma callback_ex_partial:
  "gmail_callback ex_cfg (ex_env 200 ex_partial_response Raised 1000) ''code-1'' ex_world =
     (Inl (KeyError ''refresh_token''),
      \<lparr>gmail_tokens = [ex_row], email_logs = [],
       http_log = [callback_call ex_cfg ''code-1'']\<rparr>)"
  by (simp add: gmail_callback_def requests_post_def response_json_def ex_env_def ex_env_body_def
        ex_partial_response_def ex_world_def)

theorem callback_missing_field_raises_KeyError_witness:
  "body_json (http_post (ex_env 200 ex_partial_response Raised 1000) (callback_call ex_cfg ''code-1''))
     = Some (JObject ex_partial_response) \<and>
   ex_partial_response ''access_token'' = Some (JStr ''A1'') \<and>
   gmail_callback ex_cfg (ex_env 200 ex_partial_response Raised 1000) ''code-1'' ex_world =
     (Inl (KeyError ''refresh_token''),
      \<lparr>gmail_tokens = [ex_row], email_logs = [],
       http_log = [callback_call ex_cfg ''code-1'']\<rparr>)"
proof -
  let ?e = "ex_env 200 ex_partial_response Raised 1000"
  have body: "body_json (http_post ?e (callback_call ex_cfg ''code-1'')) =
                Some (JObject ex_partial_response)"
    by (simp add: ex_env_def ex_env_body_def)
  have a: "ex_partial_response ''access_token'' = Some (JStr ''A1'')"
    by (simp add: ex_partial_response_def)
  then have acc: "ex_partial_response ''access_token'' \<noteq> None" by simp
  have key: "''refresh_token'' \<in> {''refresh_token'', ''token_type'', ''scope'', ''expires_in''}"
    by simp
  have missing: "ex_partial_response ''refresh_token'' = None"
    by (simp add: ex_partial_response_def)
  from callback_missing_field_raises_KeyError [OF body acc key missing, of ex_world]
  obtain k' where run: "gmail_callback ex_cfg ?e ''code-1'' ex_world =
                 (Inl (KeyError k'), ex_world\<lparr>http_log := http_log ex_world @ [callback_call ex_cfg ''code-1'']\<rparr>)"
    by blast
  have k: "k' = ''refresh_token''"
    using run unfolding callback_ex_partial by simp
  have w: "ex_world\<lparr>http_log := http_log ex_world @ [callback_call ex_cfg ''code-1'']\<rparr> =
      \<lparr>gmail_tokens = [ex_row], email_logs = [], http_log = [callback_call ex_cfg ''code-1'']\<rparr>"
    by (simp add: ex_world_def)
  from run have "gmail_callback ex_cfg ?e ''code-1'' ex_world =
     (Inl (KeyError ''refresh_token''),
      \<lparr>gmail_tokens = [ex_row], email_logs = [],
       http_log = [callback_call ex_cfg ''code-1'']\<rparr>)"
    unfolding k w .
  with body a show ?thesis by (intro conjI)
qed

section \<open>The transport encoding\<close>

lemma sextet_table:
  "\<forall>n \<in> set [0..<64]. sextet (urlsafe_translate (b64_char n)) = Some n
       \<and> urlsafe_translate (b64_char n) \<noteq> CHR ''=''"
  by code_simp

lemma sextet_b64_char: "n < 64 \<Longrightarrow> sextet (urlsafe_translate (b64_char n)) = Some n"
  using sextet_table by simp

lemma b64_char_not_pad: "n < 64 \<Longrightarrow> urlsafe_translate (b64_char n) \<noteq> CHR ''=''"
  using sextet_table by simp

lemma translate_pad: "urlsafe_translate CHR ''='' = CHR ''=''"
  by (simp add: urlsafe_translate_def)

lemma byte1_split: "byte1 (x div 4) (x mod 4 * 16 + y div 16) = char_of x" if "y < 256"
proof -
  have "y div 16 < 16" using that by simp
  then have "(x mod 4 * 16 + y div 16) div 16 = x mod 4" by simp
  then show ?thesis by (simp add: byte1_def)
qed

lemma byte1_split_pad: "byte1 (x div 4) (x mod 4 * 16) = char_of x"
  by (simp add: byte1_def)

lemma byte2_split:
  "byte2 (x mod 4 * 16 + y div 16) (y mod 16 * 4 + z div 64) = char_of y" if "y < 256" "z < 256"
proof -
  have a: "y div 16 < 16" using that by simp
  have b: "z div 64 < 4" using that by simp
  from a have "(x mod 4 * 16 + y div 16) mod 16 = y div 16" by simp
  moreover from b have "(y mod 16 * 4 + z div 64) div 4 = y mod 16" by simp
  ultimately show ?thesis by (simp add: byte2_def)
qed

lemma byte2_split_pad: "byte2 (x mod 4 * 16 + y div 16) (y mod 16 * 4) = char_of y" if "y < 256"
proof -
  have a: "y div 16 < 16" using that by simp
  from a have "(x mod 4 * 16 + y div 16) mod 16 = y div 16" by simp
  then show ?thesis by (simp add: byte2_def)
qed

lemma byte3_split: "byte3 (y mod 16 * 4 + z div 64) (z mod 64) = char_of z" if "z < 256"
proof -
  have "z div 64 < 4" using that by simp
  then have "(y mod 16 * 4 + z div 64) mod 4 = z div 64" by simp
  then show ?thesis by (simp add: byte3_def)
qed

lemma sextet_bounds:
  fixes x y z :: nat
  assumes "y < 256" "z < 256" "x < 256"
  shows "x div 4 < 64" "x mod 4 * 16 < 64" "x mod 4 * 16 + y div 16 < 64"
    "y mod 16 * 4 < 64" "y mod 16 * 4 + z div 64 < 64" "z mod 64 < 64"
proof -
  have a: "x mod 4 < 4" "y mod 16 < 16" by simp_all
  have b: "y div 16 < 16" "z div 64 < 4" using assms by simp_all
  show "x div 4 < 64" using assms by (simp add: div_less_iff_less_mult)
  show "x mod 4 * 16 < 64" using a by linarith
  show "x mod 4 * 16 + y div 16 < 64" using a b by linarith
  show "y mod 16 * 4 < 64" using a by linarith
  show "y mod 16 * 4 + z div 64 < 64" using a b by linarith
  show "z mod 64 < 64" by simp
qed

lemma decode_encode: "rfc4648_urlsafe_decode (urlsafe_b64encode bs) = Some bs"
proof (induction bs rule: b64encode.induct)
  case 1
  show ?case by (simp add: urlsafe_b64encode_def)
next
  case (2 a)
  let ?x = "of_char a :: nat"
  have lt: "?x div 4 < 64" "?x mod 4 * 16 < 64"
    using sextet_bounds [of 0 0 ?x] by simp_all
  show ?case
    by (simp add: urlsafe_b64encode_def Let_def sextet_b64_char lt translate_pad byte1_split_pad)
next
  case (3 a b)
  let ?x = "of_char a :: nat" and ?y = "of_char b :: nat"
  have lt: "?x div 4 < 64" "?x mod 4 * 16 + ?y div 16 < 64" "?y mod 16 * 4 < 64"
    using sextet_bounds [of ?y 0 ?x] by simp_all
  show ?case
    by (simp add: urlsafe_b64encode_def Let_def sextet_b64_char b64_char_not_pad lt translate_pad
        byte1_split byte2_split_pad)
next
  case (4 a b c rest)
  let ?x = "of_char a :: nat" and ?y = "of_char b :: nat" and ?z = "of_char c :: nat"
  have lt: "?x div 4 < 64" "?x mod 4 * 16 + ?y div 16 < 64" "?y mod 16 * 4 + ?z div 64 < 64"
    "?z mod 64 < 64"
    using sextet_bounds [of ?y ?z ?x] by simp_all
  have IH: "rfc4648_urlsafe_decode (map urlsafe_translate (b64encode rest)) = Some rest"
    using 4 by (simp add: urlsafe_b64encode_def)
  show ?case
    by (simp add: urlsafe_b64encode_def Let_def sextet_b64_char b64_char_not_pad lt IH
        byte1_split byte2_split byte3_split)
qed

section \<open>The mail dispatch\<close>

lemma send_after_token:
  assumes "refresh_gmail_token cfg e u w = (Inr tok, w1)"
  shows "send_gmail_message cfg e u to_addr subj message_body w =
           (let call = send_call tok to_addr subj message_body;
                response = http_post e call;
                w2 = w1\<lparr>http_log := http_log w1 @ [call]\<rparr>
            in case body_json response of
                 None \<Rightarrow> (Inl JSONDecodeError, w2)
               | Some payload \<Rightarrow>
                   if status_code response \<noteq> 200
                   then (Inl (HTTPException 500 (DetailJson payload)), w2)
                   else (Inr payload, w2))"
  using assms
  by (simp add: send_gmail_message_def requests_post_def response_json_def Let_def
      split: option.splits)

text \<open>
  Claim C7. Once the manager has yielded an access token, the dispatch client issues one
  call, to the provider's send endpoint, whose payload is the URL-safe base64 encoding of
  the envelope \<^verbatim>\<open>To: <to_address>\r\nSubject: <subject>\r\n\r\n<body>\<close>, for every
  address, subject and body; decoding the payload yields exactly the envelope. The
  instance with \<^verbatim>\<open>x@y.com\<close>, \<^verbatim>\<open>Hi\<close> and \<^verbatim>\<open>Body\<close> follows the theorem.
\<close>

theorem send_payload_is_urlsafe_base64:
  assumes "refresh_gmail_token cfg e u w = (Inr tok, w1)"
  shows "http_log (snd (send_gmail_message cfg e u to_addr subj message_body w)) =
           http_log w1 @
             [PostJson gmail_url
                [(''raw'', urlsafe_b64encode
                    (''To: '' @ to_addr @ CRLF @ ''Subject: '' @ subj @ CRLF @ CRLF @ message_body))]
                [(''Authorization'', ''Bearer '' @ py_str tok),
                 (''Content-Type'', ''application/json'')]] \<and>
         rfc4648_urlsafe_decode
           (urlsafe_b64encode
              (''To: '' @ to_addr @ CRLF @ ''Subject: '' @ subj @ CRLF @ CRLF @ message_body)) =
           Some (''To: '' @ to_addr @ CRLF @ ''Subject: '' @ subj @ CRLF @ CRLF @ message_body)"
proof
  show "http_log (snd (send_gmail_message cfg e u to_addr subj message_body w)) =
           http_log w1 @
             [PostJson gmail_url
                [(''raw'', urlsafe_b64encode
                    (''To: '' @ to_addr @ CRLF @ ''Subject: '' @ subj @ CRLF @ CRLF @ message_body))]
                [(''Authorization'', ''Bearer '' @ py_str tok),
                 (''Content-Type'', ''application/json'')]]"
    by (simp add: send_after_token [OF assms] Let_def send_call_def raw_email_def
        split: option.splits)
  show "rfc4648_urlsafe_decode
           (urlsafe_b64encode
              (''To: '' @ to_addr @ CRLF @ ''Subject: '' @ subj @ CRLF @ CRLF @ message_body)) =
           Some (''To: '' @ to_addr @ CRLF @ ''Subject: '' @ subj @ CRLF @ CRLF @ message_body)"
    by (rule decode_encode)
qed

lemma encode_example:
  "urlsafe_b64encode (''To: '' @ ''x@y.com'' @ CRLF @ ''Subject: '' @ ''Hi'' @ CRLF @ CRLF @ ''Body'')
     = ''VG86IHhAeS5jb20NClN1YmplY3Q6IEhpDQoNCkJvZHk=''"
  by code_simp

lemma refresh_ex_world_valid_body:
  "refresh_gmail_token ex_cfg (ex_env_body st b gen 998) ex_user ex_world =
     (Inr (JStr ''A1''), ex_world)"
proof -
  have "real_of_int (expires_at ex_row) > time_at_check (ex_env_body st b gen 998)"
    by (simp add: ex_row_def ex_env_body_def)
  from refresh_still_valid [OF select_latest_ex_world this]
  show ?thesis by (simp add: ex_row_def)
qed

lemma refresh_ex_world_valid:
  "refresh_gmail_token ex_cfg (ex_env st obj gen 998) ex_user ex_world = (Inr (JStr ''A1''), ex_world)"
  unfolding ex_env_def by (rule refresh_ex_world_valid_body)

theorem send_payload_is_urlsafe_base64_witness:
  "http_log (snd (send_gmail_message ex_cfg (ex_env 200 Map.empty Raised 998) ex_user
                    ''x@y.com'' ''Hi'' ''Body'' ex_world)) =
     [PostJson gmail_url
        [(''raw'', ''VG86IHhAeS5jb20NClN1YmplY3Q6IEhpDQoNCkJvZHk='')]
        [(''Authorization'', ''Bearer A1''), (''Content-Type'', ''application/json'')]] \<and>
   rfc4648_urlsafe_decode ''VG86IHhAeS5jb20NClN1YmplY3Q6IEhpDQoNCkJvZHk='' =
     Some (''To: x@y.com'' @ CRLF @ ''Subject: Hi'' @ CRLF @ CRLF @ ''Body'')"
proof -
  note t = send_payload_is_urlsafe_base64 [OF refresh_ex_world_valid,
      of 200 Map.empty Raised "''x@y.com''" "''Hi''" "''Body''"]
  have w: "http_log ex_world = []" by (simp add: ex_world_def)
  show ?thesis using t unfolding encode_example w by simp
qed

text \<open>
  Claim C8 says that every 2xx response to a send request is a success. Here the
  provider answers with status 201, and the dispatch client fails with the upstream send
  error (HTTP status 500) carrying the payload.
\<close>

theorem send_rejects_status_201:
  "status_code (http_post (ex_env 201 ex_sent_response Raised 998)
                  (send_call (JStr ''A1'') ''x@y.com'' ''Hi'' ''Body'')) = 201 \<and>
   fst (send_gmail_message ex_cfg (ex_env 201 ex_sent_response Raised 998) ex_user
          ''x@y.com'' ''Hi'' ''Body'' ex_world) =
     Inl (HTTPException 500 (DetailJson (JObject ex_sent_response)))"
  by (simp add: send_after_token [OF refresh_ex_world_valid] Let_def)
     (simp add: ex_env_def ex_env_body_def)

text \<open>
  Claim C8, amended. For every provider response to a send request whose body is JSON,
  the dispatch client fails with the upstream send error (HTTP status 500) carrying the
  parsed payload if and only if the response status is not 200; a response of status 200
  is a success and its payload is returned. A response whose body is not JSON makes the
  client raise the decoding error of \<^verbatim>\<open>response.json()\<close>, whatever its status.
\<close>

theorem send_fails_iff_status_not_200:
  assumes "refresh_gmail_token cfg e u w = (Inr tok, w1)"
  shows "fst (send_gmail_message cfg e u to_addr subj message_body w) =
           (case body_json (http_post e (send_call tok to_addr subj message_body)) of
              None \<Rightarrow> Inl JSONDecodeError
            | Some payload \<Rightarrow>
                if status_code (http_post e (send_call tok to_addr subj message_body)) = 200
                then Inr payload
                else Inl (HTTPException 500 (DetailJson payload)))"
  by (simp add: send_after_token [OF assms] Let_def split: option.splits)

theorem send_fails_iff_status_not_200_witness:
  "fst (send_gmail_message ex_cfg (ex_env_body 200 (Some (JObject ex_sent_response)) Raised 998)
          ex_user ''x@y.com'' ''Hi'' ''Body'' ex_world) = Inr (JObject ex_sent_response) \<and>
   fst (send_gmail_message ex_cfg (ex_env_body 404 (Some (JObject ex_sent_response)) Raised 998)
          ex_user ''x@y.com'' ''Hi'' ''Body'' ex_world) =
     Inl (HTTPException 500 (DetailJson (JObject ex_sent_response))) \<and>
   fst (send_gmail_message ex_cfg (ex_env_body 502 None Raised 998)
          ex_user ''x@y.com'' ''Hi'' ''Body'' ex_world) = Inl JSONDecodeError \<and>
   fst (send_gmail_message ex_cfg (ex_env_body 200 None Raised 998)
          ex_user ''x@y.com'' ''Hi'' ''Body'' ex_world) = Inl JSONDecodeError"
proof -
  note ok = send_fails_iff_status_not_200 [OF refresh_ex_world_valid_body,
      of 200 "Some (JObject ex_sent_response)" Raised "''x@y.com''" "''Hi''" "''Body''"]
  note ko = send_fails_iff_status_not_200 [OF refresh_ex_world_valid_body,
      of 404 "Some (JObject ex_sent_response)" Raised "''x@y.com''" "''Hi''" "''Body''"]
  note html = send_fails_iff_status_not_200 [OF refresh_ex_world_valid_body,
      of 502 None Raised "''x@y.com''" "''Hi''" "''Body''"]
  note empty = send_fails_iff_status_not_200 [OF refresh_ex_world_valid_body,
      of 200 None Raised "''x@y.com''" "''Hi''" "''Body''"]
  show ?thesis using ok ko html empty by (simp add: ex_env_body_def)
qed

section \<open>The email webhook\<close>

text \<open>
  Claim C9. Every call of the webhook returns the answer object to the caller and
  appends exactly one row to the log table, built from the payload, with status
  \<^verbatim>\<open>draft\<close>. When the generation fails (the call raises, or the completion has no
  choice to read), the reply logged and returned is the fixed fallback text; when it
  succeeds, the reply is the content of the first choice.
\<close>

theorem webhook_appends_one_log:
  "\<exists>row. process_email e payload w =
           ([(''status'', JStr ''draft''), (''reply'', ai_reply row)],
            w\<lparr>email_logs := email_logs w @ [row]\<rparr>) \<and>
         inbox_id row = payload_inbox_id payload \<and>
         sender row = payload_sender payload \<and>
         subject row = payload_subject payload \<and>
         body row = payload_body payload \<and>
         confidence row = 8 / 10 \<and>
         status row = ''draft'' \<and>
         (chat_create e (completion_request payload) = Raised \<or>
          chat_create e (completion_request payload) = Completion []
            \<longrightarrow> ai_reply row = JStr ''There was an error generating a reply.'') \<and>
         (\<forall>content rest. chat_create e (completion_request payload) = Completion (content # rest)
            \<longrightarrow> ai_reply row = content)"
proof -
  obtain r s where d: "draft_reply e payload = (r, s)" by (cases "draft_reply e payload")
  have s: "s = ''draft''"
    using d by (auto simp add: draft_reply_def split: chat_outcome.splits list.splits)
  have fail: "r = JStr ''There was an error generating a reply.''"
    if "chat_create e (completion_request payload) = Raised \<or>
        chat_create e (completion_request payload) = Completion []"
    using that d by (auto simp add: draft_reply_def fallback_reply_def)
  have ok: "r = content" if "chat_create e (completion_request payload) = Completion (content # rest)"
    for content rest
    using that d by (simp add: draft_reply_def)
  let ?row = "\<lparr>inbox_id = payload_inbox_id payload, sender = payload_sender payload,
              subject = payload_subject payload, body = payload_body payload,
              ai_reply = r, confidence = 8 / 10, status = s\<rparr>"
  have "process_email e payload w =
          ([(''status'', JStr s), (''reply'', r)], w\<lparr>email_logs := email_logs w @ [?row]\<rparr>)"
    by (simp add: process_email_def d insert_email_logs_def)
  with s fail ok show ?thesis by (intro exI [of _ ?row]) auto
qed

theorem webhook_appends_one_log_witness:
  "process_email (ex_env 200 Map.empty Raised 1000) ex_payload ex_world =
     ([(''status'', JStr ''draft''), (''reply'', JStr ''There was an error generating a reply.'')],
      \<lparr>gmail_tokens = [ex_row],
       email_logs =
         [\<lparr>inbox_id = ''inbox-1'', sender = ''a@b.org'', subject = ''Question'',
           body = ''Hello?'', ai_reply = JStr ''There was an error generating a reply.'',
           confidence = 8 / 10, status = ''draft''\<rparr>],
       http_log = []\<rparr>)"
proof -
  let ?e = "ex_env 200 Map.empty Raised 1000"
  from webhook_appends_one_log [of ?e ex_payload ex_world]
  obtain row where run: "process_email ?e ex_payload ex_world =
           ([(''status'', JStr ''draft''), (''reply'', ai_reply row)],
            ex_world\<lparr>email_logs := email_logs ex_world @ [row]\<rparr>)"
    and fields: "inbox_id row = payload_inbox_id ex_payload" "sender row = payload_sender ex_payload"
      "subject row = payload_subject ex_payload" "body row = payload_body ex_payload"
      "confidence row = 8 / 10" "status row = ''draft''"
    and fail: "chat_create ?e (completion_request ex_payload) = Raised \<or>
          chat_create ?e (completion_request ex_payload) = Completion []
            \<longrightarrow> ai_reply row = JStr ''There was an error generating a reply.''"
    by blast
  have "chat_create ?e (completion_request ex_payload) = Raised" by (simp add: ex_env_def ex_env_body_def)
  with fail have r: "ai_reply row = JStr ''There was an error generating a reply.''" by simp
  from fields r have row: "row =
          \<lparr>inbox_id = ''inbox-1'', sender = ''a@b.org'', subject = ''Question'',
           body = ''Hello?'', ai_reply = JStr ''There was an error generating a reply.'',
           confidence = 8 / 10, status = ''draft''\<rparr>"
    by (cases row) (simp add: ex_payload_def)
  show ?thesis unfolding run r unfolding row by (simp add: ex_world_def)
qed

end
